theory Spec2Isabelle
  imports Complex_Main "HOL-Library.Sublist"
begin

section \<open>The Ollama client of the AI Pictionary game\<close>

text \<open>
  A shallow embedding of the module \<^verbatim>\<open>lib/ollama\<close> (the Inference Client and the
  Response Normalizer): \<^verbatim>\<open>stripDataUriPrefix\<close>, \<^verbatim>\<open>guessDrawing\<close>,
  \<^verbatim>\<open>extractResponseContent\<close>, \<^verbatim>\<open>extractGuess\<close> and \<^verbatim>\<open>extractConfidence\<close>.

  A JavaScript string is a sequence of UTF-16 code units. The model keeps the code units
  below 256 (ASCII and Latin-1), one \<^typ>\<open>char\<close> each, so a \<^typ>\<open>string\<close> is a
  JavaScript string over that range.
\<close>

subsection \<open>String primitives of the platform\<close>

text \<open>
  \<^verbatim>\<open>WhiteSpace\<close> and \<^verbatim>\<open>LineTerminator\<close> of ECMAScript, below 256: TAB, LF, VT, FF,
  CR, SPACE and NO-BREAK SPACE. It is the set that \<^verbatim>\<open>trim()\<close> removes and that
  \<^verbatim>\<open>\s\<close> matches.
\<close>

definition isWhiteSpace :: "char \<Rightarrow> bool" where
  "isWhiteSpace c \<longleftrightarrow>
     c = CHR 0x09 \<or> c = CHR 0x0A \<or> c = CHR 0x0B \<or> c = CHR 0x0C \<or> c = CHR 0x0D
     \<or> c = CHR 0x20 \<or> c = CHR 0xA0"

text \<open>\<^verbatim>\<open>String.prototype.trim\<close>: white space is dropped at both ends.\<close>

definition trim :: "string \<Rightarrow> string" where
  "trim s = rev (dropWhile isWhiteSpace (rev (dropWhile isWhiteSpace s)))"

text \<open>
  \<^verbatim>\<open>String.prototype.toLowerCase\<close> on one code unit below 256: A to Z, and the
  Latin-1 capitals 0xC0 to 0xDE except the multiplication sign 0xD7, move up by 32.
\<close>

definition toLowerCaseChar :: "char \<Rightarrow> char" where
  "toLowerCaseChar c =
     (let n = (of_char c :: nat) in
      if (65 \<le> n \<and> n \<le> 90) \<or> (192 \<le> n \<and> n \<le> 222 \<and> n \<noteq> 215)
      then char_of (n + 32) else c)"

definition toLowerCase :: "string \<Rightarrow> string" where
  "toLowerCase s = map toLowerCaseChar s"

text \<open>\<^verbatim>\<open>s.includes(sub)\<close>: \<open>sub\<close> occurs in \<open>s\<close> at some position.\<close>

fun includes_str :: "string \<Rightarrow> string \<Rightarrow> bool" where
  "includes_str [] sub = (sub = [])"
| "includes_str (c # cs) sub = (prefix sub (c # cs) \<or> includes_str cs sub)"

text \<open>
  \<^verbatim>\<open>s.split('\n')\<close>: the pieces between line feeds; the empty string gives one empty
  piece, and a trailing line feed gives an empty last piece.
\<close>

fun split_newline :: "string \<Rightarrow> string list" where
  "split_newline [] = [[]]"
| "split_newline (c # cs) =
     (if c = CHR 0x0A then [] # split_newline cs
      else (case split_newline cs of
              [] \<Rightarrow> [[c]]
            | l # ls \<Rightarrow> (c # l) # ls))"

text \<open>Template-literal rendering of a non-negative integer, in decimal.\<close>

fun showNat :: "nat \<Rightarrow> string" where
  "showNat n =
     (if n < 10 then [char_of (48 + n)]
      else showNat (n div 10) @ [char_of (48 + n mod 10)])"

subsection \<open>Types of the module\<close>

record OllamaMessage =
  role :: string
  content :: string
  images :: "string list"

record OllamaRequestOptions =
  temperature :: rat
  num_predict :: nat

record OllamaRequest =
  model :: string
  messages :: "OllamaMessage list"
  stream :: bool
  options :: OllamaRequestOptions
  keep_alive :: string

text \<open>
  The object that \<^verbatim>\<open>response.json()\<close> resolves to, with the fields the client reads:
  \<^verbatim>\<open>error\<close> of \<^verbatim>\<open>OllamaErrorResponse\<close>, and \<^verbatim>\<open>message.content\<close>, \<^verbatim>\<open>response\<close> and
  \<^verbatim>\<open>total_duration\<close> of \<^verbatim>\<open>OllamaResponse\<close>. An absent field is \<open>None\<close>. The field
  \<open>message_content\<close> is \<^verbatim>\<open>message?.content\<close>.
\<close>

record JsonBody =
  error :: "string option"
  message_content :: "string option"
  response :: "string option"
  total_duration :: "int option"

datatype Confidence = High | Medium | Low

record GuessResult =
  guess :: string
  confidence :: Confidence
  duration_ms :: int

datatype OllamaError = OllamaError (code: string) (message: string)

text \<open>
  What the platform can throw into the \<^verbatim>\<open>try\<close> block: an \<^verbatim>\<open>Error\<close> object, with its
  \<^verbatim>\<open>name\<close>, whether it is an instance of \<^verbatim>\<open>TypeError\<close>, and its \<^verbatim>\<open>message\<close>; or a
  value that is no \<^verbatim>\<open>Error\<close>, with its \<^verbatim>\<open>String(...)\<close> rendering.
\<close>

datatype Thrown = ErrorObject string bool string | OtherValue string

text \<open>What the \<^verbatim>\<open>catch\<close> clause receives: an \<^verbatim>\<open>OllamaError\<close> of the block, or the above.\<close>

datatype Caught = Raised OllamaError | Foreign Thrown

text \<open>
  A settled \<^verbatim>\<open>fetch\<close>: its \<^verbatim>\<open>status\<close>, and what \<^verbatim>\<open>json()\<close> does, which rejects
  (\<open>Inl\<close>) or resolves to the parsed body.
\<close>

record Response =
  status :: nat
  json :: "Thrown + JsonBody"

text \<open>\<^verbatim>\<open>Response.ok\<close> of the Fetch API: the status is in the range 200 to 299.\<close>

definition ok :: "Response \<Rightarrow> bool" where
  "ok r \<longleftrightarrow> 200 \<le> status r \<and> status r \<le> 299"

text \<open>
  The backend and the network, as the client sees them: \<^verbatim>\<open>await fetch(url, init)\<close>
  rejects (\<open>Inl\<close>) or resolves to a response. The 120 s timer aborts the request through
  its \<^verbatim>\<open>AbortController\<close>; an aborted \<^verbatim>\<open>fetch\<close> rejects with an \<^verbatim>\<open>Error\<close> named
  \<^verbatim>\<open>AbortError\<close>.
\<close>

type_synonym Fetch = "OllamaRequest \<Rightarrow> Thrown + Response"

subsection \<open>stripDataUriPrefix\<close>

text \<open>
  \<^verbatim>\<open>base64.replace(/^data:[^;]+;base64,/, '')\<close>. The class \<^verbatim>\<open>[^;]+\<close> is greedy and
  cannot cross a semicolon, so the only possible match takes every character up to the
  first semicolon after \<^verbatim>\<open>data:\<close>, at least one, and \<^verbatim>\<open>;base64,\<close> must follow.
\<close>

definition stripDataUriPrefix :: "string \<Rightarrow> string" where
  "stripDataUriPrefix base64 =
     (if prefix ''data:'' base64 then
        (let r = drop 5 base64;
             mime = takeWhile (\<lambda>c. c \<noteq> CHR '';'') r;
             r' = dropWhile (\<lambda>c. c \<noteq> CHR '';'') r
         in if mime \<noteq> [] \<and> prefix '';base64,'' r' then drop 8 r' else base64)
      else base64)"

subsection \<open>extractResponseContent, extractGuess, extractConfidence\<close>

definition extractResponseContent :: "JsonBody \<Rightarrow> string" where
  "extractResponseContent data =
     (let messageContent = (case message_content data of Some c \<Rightarrow> trim c | None \<Rightarrow> [])
      in if messageContent \<noteq> [] then messageContent
         else (let fallbackResponse = (case response data of Some r \<Rightarrow> trim r | None \<Rightarrow> [])
               in if fallbackResponse \<noteq> [] then fallbackResponse else []))"

text \<open>
  \<^verbatim>\<open>/^guess\s*[:\-]\s*/i\<close> and \<^verbatim>\<open>/^answer\s*[:\-]\s*/i\<close>: the word, in any case, then
  white space, one colon or hyphen, and white space. What is left after the match, if any.
\<close>

definition matchLabel :: "string \<Rightarrow> string \<Rightarrow> string option" where
  "matchLabel word line =
     (if toLowerCase (take (length word) line) = word then
        (case dropWhile isWhiteSpace (drop (length word) line) of
           [] \<Rightarrow> None
         | c # rest \<Rightarrow>
             if c = CHR '':'' \<or> c = CHR ''-'' then Some (dropWhile isWhiteSpace rest)
             else None)
      else None)"

text \<open>\<^verbatim>\<open>/^it\s+is\s+/i\<close>: both runs of white space have at least one character.\<close>

definition matchItIs :: "string \<Rightarrow> string option" where
  "matchItIs line =
     (if toLowerCase (take 2 line) = ''it'' then
        (let r1 = drop 2 line; r2 = dropWhile isWhiteSpace r1
         in if r2 \<noteq> r1 \<and> toLowerCase (take 2 r2) = ''is'' then
              (let r3 = drop 2 r2; r4 = dropWhile isWhiteSpace r3
               in if r4 \<noteq> r3 then Some r4 else None)
            else None)
      else None)"

text \<open>\<^verbatim>\<open>line.replace(re, '')\<close> for a pattern anchored at the start.\<close>

definition replacePrefix :: "(string \<Rightarrow> string option) \<Rightarrow> string \<Rightarrow> string" where
  "replacePrefix re line = (case re line of Some rest \<Rightarrow> rest | None \<Rightarrow> line)"

definition mentionsConfidence :: "string \<Rightarrow> bool" where
  "mentionsConfidence line =
     (let lower = toLowerCase line
      in includes_str lower ''high'' \<or> includes_str lower ''medium'' \<or> includes_str lower ''low'')"

definition cleanLine :: "string \<Rightarrow> string" where
  "cleanLine line =
     trim (replacePrefix matchItIs
            (replacePrefix (matchLabel ''answer'')
              (replacePrefix (matchLabel ''guess'') line)))"

fun extractGuess :: "string list \<Rightarrow> string" where
  "extractGuess [] = []"
| "extractGuess (line # lines) =
     (if mentionsConfidence line then extractGuess lines
      else (let cleaned = cleanLine line
            in if cleaned \<noteq> [] then cleaned else extractGuess lines))"

fun extractConfidence :: "string list \<Rightarrow> Confidence option" where
  "extractConfidence [] = None"
| "extractConfidence (line # lines) =
     (let lower = toLowerCase line
      in if includes_str lower ''high'' then Some High
         else if includes_str lower ''medium'' then Some Medium
         else if includes_str lower ''low'' then Some Low
         else extractConfidence lines)"

subsection \<open>guessDrawing\<close>

definition prompt :: string where
  \<open>prompt =
     ''You are an expert at identifying drawings and sketches. Look at the image and guess what object or thing has been drawn.''
     @ [CHR 0x0A, CHR 0x0A]
     @ ''Respond with EXACTLY two lines:'' @ [CHR 0x0A]
     @ ''1. First line: The single word or short phrase of what is drawn (e.g., "cat", "house", "tree")''
     @ [CHR 0x0A]
     @ ''2. Second line: Your confidence level as one word - either "high", "medium", or "low"''
     @ [CHR 0x0A, CHR 0x0A]
     @ ''Do not include any other text, explanation, or punctuation. Just the guess and confidence level.''\<close>

definition request :: "string \<Rightarrow> OllamaRequest" where
  "request base64Image =
     (let cleanBase64 = stripDataUriPrefix base64Image
      in \<lparr> model = ''qwen3-vl'',
           messages = [\<lparr> role = ''user'', content = prompt, images = [cleanBase64] \<rparr>],
           stream = False,
           options = \<lparr> temperature = 3 / 10, num_predict = 200 \<rparr>,
           keep_alive = ''15m'' \<rparr>)"

text \<open>
  \<^verbatim>\<open>Math.round((data.total_duration ?? 0) / 1_000_000)\<close>: the nearest integer, a half
  going up. The source divides in double precision; the model is exact, and differs from
  the source on a duration that a double does not hold exactly, such as
  549755813888499968.
\<close>

definition durationMs :: "JsonBody \<Rightarrow> int" where
  "durationMs data =
     ((case total_duration data of Some n \<Rightarrow> n | None \<Rightarrow> 0) + 500000) div 1000000"

text \<open>The candidate lines: \<^verbatim>\<open>rawContent.split('\n').map((l) => l.trim()).filter(Boolean)\<close>.\<close>

definition candidateLines :: "string \<Rightarrow> string list" where
  "candidateLines rawContent = filter (\<lambda>l. l \<noteq> []) (map trim (split_newline rawContent))"

text \<open>\<^verbatim>\<open>extractConfidence(lines) || 'medium'\<close>.\<close>

definition resolveConfidence :: "string list \<Rightarrow> Confidence" where
  "resolveConfidence lines = (case extractConfidence lines of Some c \<Rightarrow> c | None \<Rightarrow> Medium)"

text \<open>
  The Response Normalizer, as a function of the raw reply text and the duration: what
  \<^verbatim>\<open>guessDrawing\<close> does from \<^verbatim>\<open>if (!rawContent)\<close> to the \<^verbatim>\<open>return\<close> or the
  \<^verbatim>\<open>throw\<close> of \<^verbatim>\<open>EMPTY_GUESS\<close>.
\<close>

definition normalize :: "string \<Rightarrow> int \<Rightarrow> OllamaError + GuessResult" where
  "normalize rawContent duration =
     (if rawContent = [] then
        Inr \<lparr> guess = ''unclear'', confidence = Low, duration_ms = duration \<rparr>
      else
        (let lines = candidateLines rawContent;
             g = extractGuess lines;
             c = resolveConfidence lines
         in if g = [] then Inl (OllamaError ''EMPTY_GUESS'' ''Ollama returned empty guess'')
            else Inr \<lparr> guess = g, confidence = c, duration_ms = duration \<rparr>))"

text \<open>The same on the parsed body \<open>data\<close> of a successful exchange.\<close>

definition normalizeResponse :: "JsonBody \<Rightarrow> OllamaError + GuessResult" where
  "normalizeResponse data = normalize (extractResponseContent data) (durationMs data)"

text \<open>The message of a failed exchange: the body's \<^verbatim>\<open>error\<close> if it parses and is truthy.\<close>

definition errorMessageOf :: "Response \<Rightarrow> string" where
  "errorMessageOf r =
     (let errorMessage = ''Ollama API returned status '' @ showNat (status r)
      in case json r of
           Inl _ \<Rightarrow> errorMessage
         | Inr errorData \<Rightarrow>
             (case error errorData of
                Some m \<Rightarrow> if m \<noteq> [] then m else errorMessage
              | None \<Rightarrow> errorMessage))"

text \<open>The \<^verbatim>\<open>try\<close> block.\<close>

definition tryBlock :: "Fetch \<Rightarrow> OllamaRequest \<Rightarrow> Caught + GuessResult" where
  \<open>tryBlock fetch req =
     (case fetch req of
        Inl t \<Rightarrow> Inl (Foreign t)
      | Inr r \<Rightarrow>
          if \<not> ok r then
            (let errorMessage = errorMessageOf r
             in if status r = 404 then
                  Inl (Raised (OllamaError ''MODEL_NOT_FOUND''
                         (''Ollama model 'qwen3-vl' not found: '' @ errorMessage)))
                else if status r = 500 then
                  Inl (Raised (OllamaError ''OLLAMA_SERVER_ERROR''
                         (''Ollama server error: '' @ errorMessage)))
                else
                  Inl (Raised (OllamaError ''OLLAMA_API_ERROR''
                         (''Ollama API error: '' @ errorMessage))))
          else
            (case json r of
               Inl t \<Rightarrow> Inl (Foreign t)
             | Inr data \<Rightarrow>
                 (case normalizeResponse data of
                    Inl e \<Rightarrow> Inl (Raised e)
                  | Inr res \<Rightarrow> Inr res)))\<close>

text \<open>The \<^verbatim>\<open>catch\<close> clause.\<close>

fun catchClause :: "Caught \<Rightarrow> OllamaError" where
  "catchClause (Raised e) = e"
| "catchClause (Foreign (ErrorObject name isTypeError msg)) =
     (if name = ''AbortError'' then
        OllamaError ''TIMEOUT'' ''Ollama API request timed out after 120 seconds''
      else if isTypeError then
        OllamaError ''NETWORK_ERROR'' (''Failed to connect to Ollama API: '' @ msg)
      else OllamaError ''UNKNOWN_ERROR'' (''Unexpected error: '' @ msg))"
| "catchClause (Foreign (OtherValue s)) =
     OllamaError ''UNKNOWN_ERROR'' (''Unexpected error: '' @ s)"

definition guessDrawing :: "Fetch \<Rightarrow> string \<Rightarrow> OllamaError + GuessResult" where
  "guessDrawing fetch base64Image =
     (case tryBlock fetch (request base64Image) of
        Inl c \<Rightarrow> Inl (catchClause c)
      | Inr res \<Rightarrow> Inr res)"

subsection \<open>The word list of the game\<close>

definition WORD_LIST :: "string list" where
  "WORD_LIST =
     [''cat'', ''dog'', ''house'', ''tree'', ''sun'', ''moon'', ''star'', ''car'', ''fish'', ''bird'',
      ''flower'', ''mountain'', ''boat'', ''hat'', ''shoe'', ''book'', ''clock'', ''chair'', ''table'', ''lamp'',
      ''apple'', ''banana'', ''pizza'', ''cake'', ''ice cream'', ''guitar'', ''piano'', ''drum'', ''rocket'', ''airplane'',
      ''bicycle'', ''umbrella'', ''rainbow'', ''cloud'', ''rain'', ''snow'', ''fire'', ''heart'', ''diamond'', ''crown'',
      ''sword'', ''shield'', ''castle'', ''bridge'', ''train'', ''bus'', ''helicopter'', ''balloon'', ''kite'', ''spider'',
      ''butterfly'', ''snake'', ''elephant'', ''lion'', ''monkey'', ''penguin'', ''whale'', ''octopus'', ''crab'', ''turtle'']"

subsection \<open>Notions of the specification and sample inputs\<close>

text \<open>A text that is empty or has white space only.\<close>

definition blank :: "string \<Rightarrow> bool" where
  "blank s \<longleftrightarrow> list_all isWhiteSpace s"

text \<open>A field that is absent, or present and blank.\<close>

fun absentOrBlank :: "string option \<Rightarrow> bool" where
  "absentOrBlank None = True"
| "absentOrBlank (Some s) = blank s"

text \<open>
  The keyword \<open>kw\<close>, given in lower case, is a substring of \<open>line\<close> when case is
  ignored.
\<close>

definition hasKeyword :: "string \<Rightarrow> string \<Rightarrow> bool" where
  "hasKeyword kw line \<longleftrightarrow> sublist kw (toLowerCase line)"

text \<open>The six kinds of the error table of the specification.\<close>

definition specKinds :: "string list" where
  "specKinds = [''MODEL_NOT_FOUND'', ''OLLAMA_SERVER_ERROR'', ''TIMEOUT'', ''NETWORK_ERROR'',
                ''EMPTY_GUESS'', ''UNKNOWN_ERROR'']"

text \<open>A body whose \<^verbatim>\<open>message.content\<close> is \<open>raw\<close>, with no other field.\<close>

definition messageReply :: "string \<Rightarrow> JsonBody" where
  "messageReply raw =
     \<lparr> error = None, message_content = Some raw, response = None, total_duration = None \<rparr>"

text \<open>A body whose \<^verbatim>\<open>error\<close> is \<open>m\<close>, with no other field.\<close>

definition errorBody :: "string \<Rightarrow> JsonBody" where
  "errorBody m =
     \<lparr> error = Some m, message_content = None, response = None, total_duration = None \<rparr>"

text \<open>A backend that settles every request in the same way.\<close>

definition settlesWith :: "Thrown + Response \<Rightarrow> Fetch" where
  "settlesWith outcome req = outcome"

section \<open>Properties\<close>

subsection \<open>Auxiliary facts\<close>

lemma dropWhile_all_Nil: "\<forall>x\<in>set (dropWhile P s). P x \<Longrightarrow> dropWhile P s = []"
  using hd_dropWhile [of P s] hd_in_set [of "dropWhile P s"] by blast

lemma trim_eq_Nil: "trim s = [] \<longleftrightarrow> blank s"
proof
  assume "trim s = []"
  then have "\<forall>x\<in>set (dropWhile isWhiteSpace s). isWhiteSpace x"
    by (simp add: trim_def dropWhile_eq_Nil_conv)
  then have "dropWhile isWhiteSpace s = []"
    by (rule dropWhile_all_Nil)
  then show "blank s"
    by (simp add: blank_def dropWhile_eq_Nil_conv list_all_iff)
next
  assume "blank s"
  then have d: "dropWhile isWhiteSpace s = []"
    by (simp add: blank_def dropWhile_eq_Nil_conv list_all_iff)
  show "trim s = []"
    unfolding trim_def d by simp
qed

lemma takeWhile_upto: "c \<notin> set xs \<Longrightarrow> takeWhile (\<lambda>x. x \<noteq> c) (xs @ c # ys) = xs"
  by (induction xs) auto

lemma dropWhile_upto: "c \<notin> set xs \<Longrightarrow> dropWhile (\<lambda>x. x \<noteq> c) (xs @ c # ys) = c # ys"
  by (induction xs) auto


lemma stripDataUriPrefix_match:
  assumes "mime \<noteq> []" and "CHR '';'' \<notin> set mime"
  shows "stripDataUriPrefix (''data:'' @ mime @ '';base64,'' @ rest) = rest"
  using assms by (simp add: stripDataUriPrefix_def Let_def takeWhile_upto dropWhile_upto)

lemma stripDataUriPrefix_cases:
  "stripDataUriPrefix s = s \<or>
   (\<exists>mime rest. mime \<noteq> [] \<and> CHR '';'' \<notin> set mime
      \<and> s = ''data:'' @ mime @ '';base64,'' @ rest \<and> stripDataUriPrefix s = rest)"
proof (cases "stripDataUriPrefix s = s")
  case True
  then show ?thesis by simp
next
  case False
  let ?P = "\<lambda>c. c \<noteq> CHR '';''"
  let ?r = "drop 5 s"
  from False have p: "prefix ''data:'' s"
    by (auto simp: stripDataUriPrefix_def split: if_splits)
  from False p have m: "takeWhile ?P ?r \<noteq> []" and b: "prefix '';base64,'' (dropWhile ?P ?r)"
    and res: "stripDataUriPrefix s = drop 8 (dropWhile ?P ?r)"
    by (auto simp: stripDataUriPrefix_def Let_def split: if_splits)
  from p have s1: "s = ''data:'' @ ?r"
    by (auto simp: prefix_def)
  from b have s2: "dropWhile ?P ?r = '';base64,'' @ drop 8 (dropWhile ?P ?r)"
    by (auto simp: prefix_def)
  have s3: "?r = takeWhile ?P ?r @ dropWhile ?P ?r"
    by simp
  have "s = ''data:'' @ takeWhile ?P ?r @ '';base64,'' @ drop 8 (dropWhile ?P ?r)"
    using s1 s2 s3 by metis
  moreover have "CHR '';'' \<notin> set (takeWhile ?P ?r)"
    by (auto dest: set_takeWhileD)
  ultimately show ?thesis
    using m res by blast
qed

lemma includes_str_sublist: "includes_str s sub \<longleftrightarrow> sublist sub s"
  by (induction s) (auto simp: sublist_Cons_right)

lemma mentionsConfidence_iff:
  "mentionsConfidence l \<longleftrightarrow> hasKeyword ''high'' l \<or> hasKeyword ''medium'' l \<or> hasKeyword ''low'' l"
  by (simp add: mentionsConfidence_def hasKeyword_def includes_str_sublist Let_def)

lemma extractResponseContent_Nil:
  "extractResponseContent data = [] \<longleftrightarrow>
     absentOrBlank (message_content data) \<and> absentOrBlank (response data)"
  by (cases "message_content data"; cases "response data")
     (auto simp: extractResponseContent_def trim_eq_Nil Let_def)

lemma extractGuess_all_confidence:
  "\<forall>l\<in>set lines. mentionsConfidence l \<Longrightarrow> extractGuess lines = []"
  by (induction lines) auto

lemma extractConfidence_None:
  "extractConfidence lines = None \<longleftrightarrow> (\<forall>l\<in>set lines. \<not> mentionsConfidence l)"
  by (induction lines) (auto simp: mentionsConfidence_def Let_def)

lemma extractConfidence_first:
  "\<forall>x\<in>set ls. \<not> mentionsConfidence x \<Longrightarrow> mentionsConfidence l \<Longrightarrow>
   extractConfidence (ls @ l # ls') =
     Some (if hasKeyword ''high'' l then High
           else if hasKeyword ''medium'' l then Medium else Low)"
  by (induction ls) (auto simp: mentionsConfidence_def hasKeyword_def includes_str_sublist Let_def)

lemma normalize_Inl:
  "normalize rawContent d = Inl e \<longleftrightarrow>
     rawContent \<noteq> [] \<and> extractGuess (candidateLines rawContent) = []
     \<and> e = OllamaError ''EMPTY_GUESS'' ''Ollama returned empty guess''"
  by (auto simp: normalize_def Let_def)

lemma normalize_Inr_guess: "normalize rawContent d = Inr r \<Longrightarrow> guess r \<noteq> []"
  by (auto simp: normalize_def Let_def split: if_splits)

lemma guessDrawing_Inr:
  "guessDrawing fetch img = Inr res \<Longrightarrow>
     \<exists>r data. fetch (request img) = Inr r \<and> ok r \<and> json r = Inr data
        \<and> normalizeResponse data = Inr res"
  by (auto simp: guessDrawing_def tryBlock_def Let_def split: sum.splits if_splits)

lemma guessDrawing_ok:
  "fetch (request img) = Inr r \<Longrightarrow> ok r \<Longrightarrow> json r = Inr data \<Longrightarrow>
   guessDrawing fetch img = normalizeResponse data"
  by (auto simp: guessDrawing_def tryBlock_def Let_def split: sum.splits)

lemma tryBlock_rejected:
  "fetch req = Inl t \<Longrightarrow> tryBlock fetch req = Inl (Foreign t)"
  by (simp add: tryBlock_def)

lemma tryBlock_not_ok:
  "fetch req = Inr r \<Longrightarrow> \<not> ok r \<Longrightarrow>
   \<exists>msg. tryBlock fetch req =
     Inl (Raised (OllamaError
       (if status r = 404 then ''MODEL_NOT_FOUND''
        else if status r = 500 then ''OLLAMA_SERVER_ERROR''
        else ''OLLAMA_API_ERROR'') msg))"
  by (simp add: tryBlock_def Let_def)

lemma tryBlock_json_rejected:
  "fetch req = Inr r \<Longrightarrow> ok r \<Longrightarrow> json r = Inl t \<Longrightarrow>
   tryBlock fetch req = Inl (Foreign t)"
  by (simp add: tryBlock_def)

lemma tryBlock_json:
  "fetch req = Inr r \<Longrightarrow> ok r \<Longrightarrow> json r = Inr data \<Longrightarrow>
   tryBlock fetch req =
     (case normalizeResponse data of Inl e \<Rightarrow> Inl (Raised e) | Inr res \<Rightarrow> Inr res)"
  by (simp add: tryBlock_def)

lemma catchClause_Foreign_kinds:
  "code (catchClause (Foreign t)) \<in> {''TIMEOUT'', ''NETWORK_ERROR'', ''UNKNOWN_ERROR''}"
proof (cases t)
  case (ErrorObject name isTypeError msg)
  then show ?thesis by simp
next
  case (OtherValue s)
  then show ?thesis by simp
qed

lemma normalizeResponse_Inl:
  "normalizeResponse data = Inl e \<Longrightarrow> code e = ''EMPTY_GUESS''"
  by (simp add: normalizeResponse_def normalize_Inl)

lemma showNat_404: "showNat 404 = ''404''"
  by code_simp

text \<open>
  An aborted request: when \<^verbatim>\<open>fetch\<close> rejects with an \<^verbatim>\<open>Error\<close> named \<^verbatim>\<open>AbortError\<close>, the
  \<^verbatim>\<open>catch\<close> clause turns it into \<^verbatim>\<open>TIMEOUT\<close>, and no result is returned.
\<close>

lemma aborted_fetch:
  "fetch (request img) = Inl (ErrorObject ''AbortError'' isTypeError msg) \<Longrightarrow>
   guessDrawing fetch img =
     Inl (OllamaError ''TIMEOUT'' ''Ollama API request timed out after 120 seconds'')"
  by (simp add: guessDrawing_def tryBlock_def)

subsection \<open>The reply "It is a cat", "high"\<close>

lemma candidateLines_cat:
  "candidateLines (''It is a cat'' @ [CHR 0x0A] @ ''high'') = [''It is a cat'', ''high'']"
  by code_simp

lemma extractGuess_cat: "extractGuess [''It is a cat'', ''high''] = ''a cat''"
  by code_simp

lemma resolveConfidence_cat: "resolveConfidence [''It is a cat'', ''high''] = High"
  by code_simp

text \<open>
  Claim C1, as the code has it. A reply whose text is \<open>It is a cat\<close>, a line feed and
  \<open>high\<close> is normalized to a success with confidence \<open>high\<close> and guess \<open>a cat\<close>: the
  line \<open>high\<close> is skipped as a confidence line, and from the other line only the prefix
  \<open>It is\<close> with its white space is removed, so the article stays.
\<close>

theorem it_is_a_cat:
  "extractResponseContent data = ''It is a cat'' @ [CHR 0x0A] @ ''high'' \<Longrightarrow>
   normalizeResponse data =
     Inr \<lparr> guess = ''a cat'', confidence = High, duration_ms = durationMs data \<rparr>"
  by (simp add: normalizeResponse_def normalize_def Let_def
        candidateLines_cat [simplified] extractGuess_cat [simplified] resolveConfidence_cat [simplified])

theorem it_is_a_cat_witness:
  "extractResponseContent (messageReply (''It is a cat'' @ [CHR 0x0A] @ ''high''))
     = ''It is a cat'' @ [CHR 0x0A] @ ''high''
   \<and> normalizeResponse (messageReply (''It is a cat'' @ [CHR 0x0A] @ ''high''))
     = Inr \<lparr> guess = ''a cat'', confidence = High, duration_ms = 0 \<rparr>"
proof -
  have h: "extractResponseContent (messageReply (''It is a cat'' @ [CHR 0x0A] @ ''high''))
     = ''It is a cat'' @ [CHR 0x0A] @ ''high''"
    by code_simp
  have d: "durationMs (messageReply (''It is a cat'' @ [CHR 0x0A] @ ''high'')) = 0"
    by (simp add: durationMs_def messageReply_def)
  from it_is_a_cat [OF h] h d show ?thesis by simp
qed

text \<open>
  Claim C1 as stated, with the guess \<open>cat\<close>, does not hold: the guess is \<open>a cat\<close>.
\<close>

theorem it_is_a_cat_counterexample:
  "normalizeResponse (messageReply (''It is a cat'' @ [CHR 0x0A] @ ''high''))
     = Inr \<lparr> guess = ''a cat'', confidence = High, duration_ms = 0 \<rparr>
   \<and> ''a cat'' \<noteq> ''cat''"
  by code_simp

subsection \<open>Blank replies\<close>

text \<open>
  Claim C4. When the reply text is empty or has white space only, that is, when each of
  \<^verbatim>\<open>message.content\<close> and \<^verbatim>\<open>response\<close> is absent or blank, the Response Normalizer
  succeeds with guess \<open>unclear\<close> and confidence \<open>low\<close>; it reports no error.
\<close>

theorem blank_reply_unclear:
  assumes "absentOrBlank (message_content data)" and "absentOrBlank (response data)"
  shows "normalizeResponse data =
           Inr \<lparr> guess = ''unclear'', confidence = Low, duration_ms = durationMs data \<rparr>"
  using assms by (simp add: normalizeResponse_def normalize_def extractResponseContent_Nil)

theorem blank_reply_unclear_witness:
  "absentOrBlank (message_content (messageReply [CHR 0x20, CHR 0x0A, CHR 0x09]))
   \<and> absentOrBlank (response (messageReply [CHR 0x20, CHR 0x0A, CHR 0x09]))
   \<and> normalizeResponse (messageReply [CHR 0x20, CHR 0x0A, CHR 0x09]) =
       Inr \<lparr> guess = ''unclear'', confidence = Low, duration_ms = 0 \<rparr>"
proof -
  let ?d = "messageReply [CHR 0x20, CHR 0x0A, CHR 0x09]"
  have m: "absentOrBlank (message_content ?d)"
    by (simp add: messageReply_def blank_def isWhiteSpace_def)
  have r: "absentOrBlank (response ?d)"
    by (simp add: messageReply_def)
  have d: "durationMs ?d = 0"
    by (simp add: durationMs_def messageReply_def)
  from blank_reply_unclear [OF m r] m r d show ?thesis by simp
qed

subsection \<open>The guess of a success is never empty\<close>

text \<open>
  Claim C5. The guess of every success is a non-empty string, for the Response Normalizer
  and for \<^verbatim>\<open>guessDrawing\<close> as a whole. The normalizer fails with \<^verbatim>\<open>EMPTY_GUESS\<close> exactly
  when the reply text is not blank and guess extraction on its candidate lines yields the
  empty string, and it fails in no other way. A reply that is the single line \<open>high\<close> is
  such a failure.
\<close>

theorem guess_never_empty:
  "(\<forall>r. normalizeResponse data = Inr r \<longrightarrow> guess r \<noteq> [])
   \<and> (\<forall>r. guessDrawing fetch img = Inr r \<longrightarrow> guess r \<noteq> [])
   \<and> ((\<exists>e. normalizeResponse data = Inl e \<and> code e = ''EMPTY_GUESS'') \<longleftrightarrow>
        extractResponseContent data \<noteq> []
        \<and> extractGuess (candidateLines (extractResponseContent data)) = [])
   \<and> (\<forall>e. normalizeResponse data = Inl e \<longrightarrow> code e = ''EMPTY_GUESS'')
   \<and> (extractResponseContent data = ''high'' \<longrightarrow>
        normalizeResponse data = Inl (OllamaError ''EMPTY_GUESS'' ''Ollama returned empty guess''))"
proof (intro conjI)
  show "\<forall>r. normalizeResponse data = Inr r \<longrightarrow> guess r \<noteq> []"
    by (auto simp: normalizeResponse_def dest: normalize_Inr_guess)
  show "\<forall>r. guessDrawing fetch img = Inr r \<longrightarrow> guess r \<noteq> []"
    by (auto simp: normalizeResponse_def dest!: guessDrawing_Inr normalize_Inr_guess)
  show "(\<exists>e. normalizeResponse data = Inl e \<and> code e = ''EMPTY_GUESS'') \<longleftrightarrow>
        extractResponseContent data \<noteq> []
        \<and> extractGuess (candidateLines (extractResponseContent data)) = []"
    by (auto simp: normalizeResponse_def normalize_Inl)
  show "\<forall>e. normalizeResponse data = Inl e \<longrightarrow> code e = ''EMPTY_GUESS''"
    by (auto simp: normalizeResponse_def normalize_Inl)
  have "extractGuess (candidateLines ''high'') = []"
    by code_simp
  then show "extractResponseContent data = ''high'' \<longrightarrow>
        normalizeResponse data = Inl (OllamaError ''EMPTY_GUESS'' ''Ollama returned empty guess'')"
    by (simp add: normalizeResponse_def normalize_Inl)
qed

theorem guess_never_empty_witness:
  "normalizeResponse (messageReply ''a red balloon'')
     = Inr \<lparr> guess = ''a red balloon'', confidence = Medium, duration_ms = 0 \<rparr>
   \<and> ''a red balloon'' \<noteq> []
   \<and> extractResponseContent (messageReply ''high'') = ''high''
   \<and> extractGuess (candidateLines ''high'') = []
   \<and> normalizeResponse (messageReply ''high'')
       = Inl (OllamaError ''EMPTY_GUESS'' ''Ollama returned empty guess'')"
proof -
  have s: "normalizeResponse (messageReply ''a red balloon'')
     = Inr \<lparr> guess = ''a red balloon'', confidence = Medium, duration_ms = 0 \<rparr>"
    by code_simp
  have h: "extractResponseContent (messageReply ''high'') = ''high''"
    by code_simp
  have g: "extractGuess (candidateLines ''high'') = []"
    by code_simp
  from guess_never_empty [of "messageReply ''a red balloon''"] s
  have "guess \<lparr> guess = ''a red balloon'', confidence = Medium, duration_ms = 0 \<rparr> \<noteq> []"
    by blast
  moreover from guess_never_empty [of "messageReply ''high''"] h
  have "normalizeResponse (messageReply ''high'')
       = Inl (OllamaError ''EMPTY_GUESS'' ''Ollama returned empty guess'')"
    by blast
  ultimately show ?thesis using s h g by simp
qed

subsection \<open>The kinds of failure\<close>

text \<open>
  Claim C2, as the code has it. Every failure of \<^verbatim>\<open>guessDrawing\<close> is an \<^verbatim>\<open>OllamaError\<close>
  whose code is one of the six kinds of the specification or \<^verbatim>\<open>OLLAMA_API_ERROR\<close>. The
  seventh code is produced exactly when the exchange completes with a status outside 200
  to 299 that is neither 404 nor 500.
\<close>

theorem failure_kinds:
  assumes "guessDrawing fetch img = Inl e"
  shows "(code e \<in> set specKinds \<or> code e = ''OLLAMA_API_ERROR'')
         \<and> (code e = ''OLLAMA_API_ERROR'' \<longleftrightarrow>
              (\<exists>r. fetch (request img) = Inr r \<and> \<not> ok r
                    \<and> status r \<noteq> 404 \<and> status r \<noteq> 500))"
proof (cases "fetch (request img)")
  case (Inl t)
  then have "guessDrawing fetch img = Inl (catchClause (Foreign t))"
    by (simp add: guessDrawing_def tryBlock_rejected)
  with assms have "e = catchClause (Foreign t)"
    by simp
  with catchClause_Foreign_kinds [of t] Inl show ?thesis
    by (auto simp: specKinds_def)
next
  case (Inr r)
  show ?thesis
  proof (cases "ok r")
    case False
    from tryBlock_not_ok [of fetch "request img" r, OF Inr False] obtain msg where
      "tryBlock fetch (request img) =
         Inl (Raised (OllamaError
           (if status r = 404 then ''MODEL_NOT_FOUND''
            else if status r = 500 then ''OLLAMA_SERVER_ERROR''
            else ''OLLAMA_API_ERROR'') msg))"
      by blast
    with assms have "code e =
           (if status r = 404 then ''MODEL_NOT_FOUND''
            else if status r = 500 then ''OLLAMA_SERVER_ERROR''
            else ''OLLAMA_API_ERROR'')"
      by (auto simp: guessDrawing_def)
    with Inr False show ?thesis
      by (simp add: specKinds_def)
  next
    case True
    show ?thesis
    proof (cases "json r")
      case (Inl t)
      from tryBlock_json_rejected [of fetch "request img" r t, OF Inr True Inl]
      have "guessDrawing fetch img = Inl (catchClause (Foreign t))"
        by (simp add: guessDrawing_def)
      with assms have "e = catchClause (Foreign t)"
        by simp
      with catchClause_Foreign_kinds [of t] Inr True show ?thesis
        by (auto simp: specKinds_def)
    next
      case json: (Inr data)
      from tryBlock_json [of fetch "request img" r data, OF Inr True json] assms
      have "normalizeResponse data = Inl e"
        by (simp add: guessDrawing_def split: sum.splits)
      then have "code e = ''EMPTY_GUESS''"
        by (rule normalizeResponse_Inl)
      with Inr True show ?thesis
        by (simp add: specKinds_def)
    qed
  qed
qed

theorem failure_kinds_witness:
  "guessDrawing (settlesWith (Inl (ErrorObject ''AbortError'' False ''The operation was aborted''))) ''abc''
     = Inl (OllamaError ''TIMEOUT'' ''Ollama API request timed out after 120 seconds'')
   \<and> ''TIMEOUT'' \<in> set specKinds"
proof -
  have h: "guessDrawing (settlesWith (Inl (ErrorObject ''AbortError'' False ''The operation was aborted''))) ''abc''
     = Inl (OllamaError ''TIMEOUT'' ''Ollama API request timed out after 120 seconds'')"
    by code_simp
  from failure_kinds [OF h] h show ?thesis by simp
qed

text \<open>
  Claim C2 as stated, with six kinds, does not hold: a completed exchange with status 503
  fails with \<^verbatim>\<open>OLLAMA_API_ERROR\<close>, which is none of the six.
\<close>

theorem failure_kinds_counterexample:
  "guessDrawing (settlesWith (Inr \<lparr> status = 503, json = Inr (errorBody ''overloaded'') \<rparr>)) ''abc''
     = Inl (OllamaError ''OLLAMA_API_ERROR'' ''Ollama API error: overloaded'')
   \<and> ''OLLAMA_API_ERROR'' \<notin> set specKinds"
  by code_simp

subsection \<open>A missing model\<close>

text \<open>
  Claim C8. When the exchange completes with status 404 and the body parses to an object
  whose \<^verbatim>\<open>error\<close> is \<open>m\<close>, \<^verbatim>\<open>guessDrawing\<close> fails with \<^verbatim>\<open>MODEL_NOT_FOUND\<close>, and the
  message of the failure contains \<open>m\<close>: it ends with \<open>m\<close>, or with the status text when
  \<open>m\<close> is empty.
\<close>

theorem model_not_found:
  assumes "fetch (request img) = Inr r" and "status r = 404"
    and "json r = Inr body" and "error body = Some m"
  shows \<open>guessDrawing fetch img =
           Inl (OllamaError ''MODEL_NOT_FOUND''
                 (''Ollama model 'qwen3-vl' not found: ''
                    @ (if m \<noteq> [] then m else ''Ollama API returned status 404'')))
         \<and> (\<forall>e. guessDrawing fetch img = Inl e \<longrightarrow> sublist m (message e))\<close>
proof -
  have nok: "\<not> ok r"
    using assms(2) by (simp add: ok_def)
  have em: "errorMessageOf r = (if m \<noteq> [] then m else ''Ollama API returned status 404'')"
    using assms(2-4) by (simp add: errorMessageOf_def Let_def showNat_404 [simplified])
  define pre :: string where \<open>pre = ''Ollama model 'qwen3-vl' not found: ''\<close>
  have g: "guessDrawing fetch img = Inl (OllamaError ''MODEL_NOT_FOUND'' (pre @ errorMessageOf r))"
    using assms(1,2) nok by (simp add: guessDrawing_def tryBlock_def Let_def pre_def)
  have sub: "sublist m (pre @ errorMessageOf r)"
    using em by (cases "m = []") simp_all
  show ?thesis
  proof (intro conjI allI impI)
    show \<open>guessDrawing fetch img =
           Inl (OllamaError ''MODEL_NOT_FOUND''
                 (''Ollama model 'qwen3-vl' not found: ''
                    @ (if m \<noteq> [] then m else ''Ollama API returned status 404'')))\<close>
      using g em by (simp add: pre_def)
  next
    fix e
    assume "guessDrawing fetch img = Inl e"
    with g have "message e = pre @ errorMessageOf r"
      by simp
    with sub show "sublist m (message e)"
      by simp
  qed
qed

theorem model_not_found_witness:
  \<open>guessDrawing (settlesWith (Inr \<lparr> status = 404, json = Inr (errorBody ''model not found'') \<rparr>)) ''abc''
     = Inl (OllamaError ''MODEL_NOT_FOUND'' ''Ollama model 'qwen3-vl' not found: model not found'')
   \<and> sublist ''model not found'' ''Ollama model 'qwen3-vl' not found: model not found''\<close>
proof -
  let ?r = "\<lparr> status = 404, json = Inr (errorBody ''model not found'') \<rparr>"
  have 1: "settlesWith (Inr ?r) (request ''abc'') = Inr ?r"
    by (simp add: settlesWith_def)
  have 2: "status ?r = 404" by simp
  have 3: "json ?r = Inr (errorBody ''model not found'')" by simp
  have 4: "error (errorBody ''model not found'') = Some ''model not found''"
    by (simp add: errorBody_def)
  note inst = model_not_found [where fetch = "settlesWith (Inr ?r)" and img = "''abc''", OF 1 2 3 4]
  from inst have a: \<open>guessDrawing (settlesWith (Inr ?r)) ''abc''
     = Inl (OllamaError ''MODEL_NOT_FOUND'' ''Ollama model 'qwen3-vl' not found: model not found'')\<close>
    by simp
  from inst have "\<forall>e. guessDrawing (settlesWith (Inr ?r)) ''abc'' = Inl e
           \<longrightarrow> sublist ''model not found'' (message e)"
    by (rule conjunct2)
  with a have \<open>sublist ''model not found''
      (message (OllamaError ''MODEL_NOT_FOUND'' ''Ollama model 'qwen3-vl' not found: model not found''))\<close>
    by blast
  with a show ?thesis
    by simp
qed

subsection \<open>The data-URI prefix\<close>

text \<open>
  Claim C6. An input that begins with \<^verbatim>\<open>data:<mime>;base64,\<close>, where \<^verbatim>\<open><mime>\<close> is a
  non-empty text without a semicolon, loses that prefix: the image embedded in the request
  is the payload behind it. An input with no such prefix is embedded unchanged.
\<close>

theorem data_uri_prefix:
  "(mime \<noteq> [] \<and> CHR '';'' \<notin> set mime \<longrightarrow>
      stripDataUriPrefix (''data:'' @ mime @ '';base64,'' @ payload) = payload
      \<and> map images (messages (request (''data:'' @ mime @ '';base64,'' @ payload))) = [[payload]])
   \<and> ((\<nexists>mime payload. mime \<noteq> [] \<and> CHR '';'' \<notin> set mime
            \<and> s = ''data:'' @ mime @ '';base64,'' @ payload) \<longrightarrow>
      stripDataUriPrefix s = s \<and> map images (messages (request s)) = [[s]])"
proof (intro conjI impI)
  assume "mime \<noteq> [] \<and> CHR '';'' \<notin> set mime"
  then show m: "stripDataUriPrefix (''data:'' @ mime @ '';base64,'' @ payload) = payload"
    using stripDataUriPrefix_match [of mime payload] by blast
  show "map images (messages (request (''data:'' @ mime @ '';base64,'' @ payload))) = [[payload]]"
    unfolding request_def Let_def m by simp
next
  assume "\<nexists>mime payload. mime \<noteq> [] \<and> CHR '';'' \<notin> set mime
            \<and> s = ''data:'' @ mime @ '';base64,'' @ payload"
  with stripDataUriPrefix_cases [of s] show u: "stripDataUriPrefix s = s"
    by blast
  show "map images (messages (request s)) = [[s]]"
    unfolding request_def Let_def u by simp
qed

theorem data_uri_prefix_witness:
  "stripDataUriPrefix ''data:image/png;base64,iVBORw0KGgo='' = ''iVBORw0KGgo=''
   \<and> map images (messages (request ''data:image/png;base64,iVBORw0KGgo='')) = [[''iVBORw0KGgo='']]
   \<and> stripDataUriPrefix ''iVBORw0KGgo='' = ''iVBORw0KGgo=''
   \<and> map images (messages (request ''iVBORw0KGgo='')) = [[''iVBORw0KGgo='']]"
proof -
  have 1: "''image/png'' \<noteq> [] \<and> CHR '';'' \<notin> set ''image/png''"
    by simp
  have 2: "\<nexists>mime payload. mime \<noteq> [] \<and> CHR '';'' \<notin> set mime
            \<and> ''iVBORw0KGgo='' = ''data:'' @ mime @ '';base64,'' @ payload"
    by simp
  from data_uri_prefix [of "''image/png''" "''iVBORw0KGgo=''" "''iVBORw0KGgo=''"] 1 2
  show ?thesis
    by simp
qed

subsection \<open>Confidence extraction\<close>

text \<open>
  Claim C3. \<^verbatim>\<open>extractConfidence\<close> goes through the candidate lines in order, whether or not
  a line serves as the guess. The first line that has \<open>high\<close>, \<open>medium\<close> or \<open>low\<close> as a
  substring, case ignored, decides: the result is the first of \<open>high\<close>, \<open>medium\<close>, \<open>low\<close>
  that the line contains, and the resolved confidence is that result. When no candidate line
  contains any of the three, the resolved confidence is \<open>medium\<close>. The confidence of every
  success on a non-empty reply text is the one so determined: the keyword of the first
  candidate line that has one, and \<open>medium\<close> when none has.
\<close>

theorem confidence_extraction:
  "(\<forall>ls l ls'. lines = ls @ l # ls' \<and> (\<forall>x\<in>set ls. \<not> mentionsConfidence x)
        \<and> mentionsConfidence l \<longrightarrow>
      extractConfidence lines =
        Some (if hasKeyword ''high'' l then High
              else if hasKeyword ''medium'' l then Medium else Low))
   \<and> (extractConfidence lines = None \<longleftrightarrow> (\<forall>l\<in>set lines. \<not> mentionsConfidence l))
   \<and> (mentionsConfidence line \<longleftrightarrow>
        hasKeyword ''high'' line \<or> hasKeyword ''medium'' line \<or> hasKeyword ''low'' line)
   \<and> ((\<forall>l\<in>set (candidateLines rawContent). \<not> mentionsConfidence l) \<longrightarrow>
        resolveConfidence (candidateLines rawContent) = Medium)
   \<and> (\<forall>res. rawContent \<noteq> [] \<and> normalize rawContent d = Inr res \<longrightarrow>
        confidence res = resolveConfidence (candidateLines rawContent))
   \<and> (\<forall>c. extractConfidence lines = Some c \<longrightarrow> resolveConfidence lines = c)
   \<and> (\<forall>ls l ls'. lines = ls @ l # ls' \<and> (\<forall>x\<in>set ls. \<not> mentionsConfidence x)
        \<and> mentionsConfidence l \<longrightarrow>
      resolveConfidence lines =
        (if hasKeyword ''high'' l then High
         else if hasKeyword ''medium'' l then Medium else Low))
   \<and> ((\<forall>l\<in>set lines. \<not> mentionsConfidence l) \<longrightarrow> resolveConfidence lines = Medium)
   \<and> (\<forall>res ls l ls'. rawContent \<noteq> [] \<and> normalize rawContent d = Inr res
        \<and> candidateLines rawContent = ls @ l # ls'
        \<and> (\<forall>x\<in>set ls. \<not> mentionsConfidence x) \<and> mentionsConfidence l \<longrightarrow>
      confidence res =
        (if hasKeyword ''high'' l then High
         else if hasKeyword ''medium'' l then Medium else Low))
   \<and> (\<forall>res. rawContent \<noteq> [] \<and> normalize rawContent d = Inr res
        \<and> (\<forall>l\<in>set (candidateLines rawContent). \<not> mentionsConfidence l) \<longrightarrow>
      confidence res = Medium)"
proof -
  have first: "extractConfidence (ls @ l # ls') =
        Some (if hasKeyword ''high'' l then High
              else if hasKeyword ''medium'' l then Medium else Low)"
    if "\<forall>x\<in>set ls. \<not> mentionsConfidence x" and "mentionsConfidence l" for ls l ls'
    using that by (rule extractConfidence_first)
  have rfirst: "resolveConfidence (ls @ l # ls') =
        (if hasKeyword ''high'' l then High
         else if hasKeyword ''medium'' l then Medium else Low)"
    if "\<forall>x\<in>set ls. \<not> mentionsConfidence x" and "mentionsConfidence l" for ls l ls'
    unfolding resolveConfidence_def first [OF that] by simp
  have rnone: "resolveConfidence ls = Medium" if "\<forall>l\<in>set ls. \<not> mentionsConfidence l" for ls
  proof -
    from that have "extractConfidence ls = None"
      by (simp add: extractConfidence_None)
    then show ?thesis
      by (simp add: resolveConfidence_def)
  qed
  have res: "confidence res = resolveConfidence (candidateLines rawContent)"
    if "rawContent \<noteq> []" and "normalize rawContent d = Inr res" for res
    using that by (auto simp: normalize_def Let_def split: if_splits)
  show ?thesis
  proof (intro conjI allI impI)
    fix ls l ls'
    assume "lines = ls @ l # ls' \<and> (\<forall>x\<in>set ls. \<not> mentionsConfidence x) \<and> mentionsConfidence l"
    then show "extractConfidence lines =
        Some (if hasKeyword ''high'' l then High
              else if hasKeyword ''medium'' l then Medium else Low)"
      using first by blast
  next
    show "extractConfidence lines = None \<longleftrightarrow> (\<forall>l\<in>set lines. \<not> mentionsConfidence l)"
      by (rule extractConfidence_None)
  next
    show "mentionsConfidence line \<longleftrightarrow>
        hasKeyword ''high'' line \<or> hasKeyword ''medium'' line \<or> hasKeyword ''low'' line"
      by (rule mentionsConfidence_iff)
  next
    assume "\<forall>l\<in>set (candidateLines rawContent). \<not> mentionsConfidence l"
    then show "resolveConfidence (candidateLines rawContent) = Medium"
      by (rule rnone)
  next
    fix res
    assume "rawContent \<noteq> [] \<and> normalize rawContent d = Inr res"
    then show "confidence res = resolveConfidence (candidateLines rawContent)"
      using res by blast
  next
    fix c
    assume "extractConfidence lines = Some c"
    then show "resolveConfidence lines = c"
      by (simp add: resolveConfidence_def)
  next
    fix ls l ls'
    assume "lines = ls @ l # ls' \<and> (\<forall>x\<in>set ls. \<not> mentionsConfidence x) \<and> mentionsConfidence l"
    then show "resolveConfidence lines =
        (if hasKeyword ''high'' l then High
         else if hasKeyword ''medium'' l then Medium else Low)"
      using rfirst by blast
  next
    assume "\<forall>l\<in>set lines. \<not> mentionsConfidence l"
    then show "resolveConfidence lines = Medium"
      by (rule rnone)
  next
    fix res ls l ls'
    assume a: "rawContent \<noteq> [] \<and> normalize rawContent d = Inr res
        \<and> candidateLines rawContent = ls @ l # ls'
        \<and> (\<forall>x\<in>set ls. \<not> mentionsConfidence x) \<and> mentionsConfidence l"
    then have "confidence res = resolveConfidence (ls @ l # ls')"
      using res by metis
    with a rfirst [of ls l ls'] show "confidence res =
        (if hasKeyword ''high'' l then High
         else if hasKeyword ''medium'' l then Medium else Low)"
      by metis
  next
    fix res
    assume a: "rawContent \<noteq> [] \<and> normalize rawContent d = Inr res
        \<and> (\<forall>l\<in>set (candidateLines rawContent). \<not> mentionsConfidence l)"
    then have "confidence res = resolveConfidence (candidateLines rawContent)"
      using res by blast
    with a rnone [of "candidateLines rawContent"] show "confidence res = Medium"
      by simp
  qed
qed

theorem confidence_extraction_witness:
  "extractConfidence [''a cat'', ''low or HIGH'', ''medium''] = Some High
   \<and> resolveConfidence [''a cat'', ''low or HIGH'', ''medium''] = High
   \<and> resolveConfidence (candidateLines ''a red balloon'') = Medium
   \<and> normalize ''a red balloon'' 0
       = Inr \<lparr> guess = ''a red balloon'', confidence = Medium, duration_ms = 0 \<rparr>
   \<and> normalize (''cat'' @ [CHR 0x0A] @ ''high'') 0
       = Inr \<lparr> guess = ''cat'', confidence = High, duration_ms = 0 \<rparr>
   \<and> candidateLines (''cat'' @ [CHR 0x0A] @ ''high'') = [''cat''] @ ''high'' # []
   \<and> \<not> mentionsConfidence ''cat'' \<and> mentionsConfidence ''high'' \<and> hasKeyword ''high'' ''high''"
proof -
  let ?ls = "[''a cat'', ''low or HIGH'', ''medium'']"
  let ?raw = "''cat'' @ [CHR 0x0A] @ ''high''"
  let ?res = "\<lparr> guess = ''cat'', confidence = High, duration_ms = 0 \<rparr>"
  have 1: "?ls = [''a cat''] @ ''low or HIGH'' # [''medium'']"
    by simp
  have 2: "\<forall>x\<in>set [''a cat'']. \<not> mentionsConfidence x"
    by code_simp
  have 3: "mentionsConfidence ''low or HIGH''"
    by code_simp
  have 4: "hasKeyword ''high'' ''low or HIGH''"
    unfolding hasKeyword_def includes_str_sublist [symmetric] by code_simp
  have 5: "\<forall>l\<in>set (candidateLines ''a red balloon''). \<not> mentionsConfidence l"
    by code_simp
  have 6: "normalize ''a red balloon'' 0
       = Inr \<lparr> guess = ''a red balloon'', confidence = Medium, duration_ms = 0 \<rparr>"
    by code_simp
  have 7: "?raw \<noteq> []"
    by simp
  have 8: "normalize ?raw 0 = Inr ?res"
    by code_simp
  have 9: "candidateLines ?raw = [''cat''] @ ''high'' # []"
    by code_simp
  have 10: "\<forall>x\<in>set [''cat'']. \<not> mentionsConfidence x"
    by code_simp
  have 11: "mentionsConfidence ''high''"
    by code_simp
  have 12: "hasKeyword ''high'' ''high''"
    unfolding hasKeyword_def includes_str_sublist [symmetric] by code_simp
  note inst = confidence_extraction
    [where lines = ?ls and rawContent = "''a red balloon''" and d = 0]
  note inst' = confidence_extraction [where rawContent = ?raw and d = 0]
  from inst 1 2 3 have "extractConfidence ?ls =
        Some (if hasKeyword ''high'' ''low or HIGH'' then High
              else if hasKeyword ''medium'' ''low or HIGH'' then Medium else Low)"
    by blast
  with 4 have a: "extractConfidence ?ls = Some High"
    by simp
  with inst have a': "resolveConfidence ?ls = High"
    by blast
  from inst 5 have b: "resolveConfidence (candidateLines ''a red balloon'') = Medium"
    by blast
  from inst' 7 8 9 10 11 have "confidence ?res =
        (if hasKeyword ''high'' ''high'' then High
         else if hasKeyword ''medium'' ''high'' then Medium else Low)"
    by blast
  from a a' b 6 8 9 10 11 12 show ?thesis
    by simp
qed

subsection \<open>The normalizer is a function of the reply text\<close>

text \<open>
  Claim C9. The guess and the confidence of the Response Normalizer, or its failure, depend
  on the reply text alone: they are the same for any two durations, and for any two bodies
  with the same extracted reply text. With equal durations as well, the whole results are
  equal.
\<close>

theorem normalizer_function_of_text:
  "map_sum id (\<lambda>res. (guess res, confidence res)) (normalize rawContent d)
     = map_sum id (\<lambda>res. (guess res, confidence res)) (normalize rawContent d')
   \<and> (extractResponseContent a = extractResponseContent b \<longrightarrow>
        map_sum id (\<lambda>res. (guess res, confidence res)) (normalizeResponse a)
          = map_sum id (\<lambda>res. (guess res, confidence res)) (normalizeResponse b)
        \<and> (durationMs a = durationMs b \<longrightarrow> normalizeResponse a = normalizeResponse b))"
  by (auto simp: normalizeResponse_def normalize_def Let_def)

theorem normalizer_function_of_text_witness:
  "extractResponseContent (messageReply ''a red balloon'')
     = extractResponseContent
         \<lparr> error = None, message_content = None, response = Some '' a red balloon '',
           total_duration = Some 499999 \<rparr>
   \<and> normalizeResponse (messageReply ''a red balloon'')
     = normalizeResponse
         \<lparr> error = None, message_content = None, response = Some '' a red balloon '',
           total_duration = Some 499999 \<rparr>"
proof -
  let ?b = "\<lparr> error = None, message_content = None, response = Some '' a red balloon '',
           total_duration = Some 499999 \<rparr>"
  have 1: "extractResponseContent (messageReply ''a red balloon'') = extractResponseContent ?b"
    by code_simp
  have 2: "durationMs (messageReply ''a red balloon'') = durationMs ?b"
    by (simp add: durationMs_def messageReply_def)
  from normalizer_function_of_text [of _ _ _ "messageReply ''a red balloon''" ?b] 1 2
  show ?thesis
    by blast
qed

subsection \<open>Confidence words inside ordinary words\<close>

text \<open>
  Claim C10. When the reply text is not blank and every candidate line contains \<open>high\<close>,
  \<open>medium\<close> or \<open>low\<close> as a substring, case ignored, guess extraction skips every line and
  the normalizer fails with \<^verbatim>\<open>EMPTY_GUESS\<close>. The reply \<open>flower\<close>, line feed, \<open>high\<close> is
  such a reply: \<open>flower\<close>, a word of the word list of the game, contains \<open>low\<close>.
\<close>

theorem confidence_words_hide_guess:
  "(extractResponseContent data \<noteq> []
      \<and> (\<forall>l\<in>set (candidateLines (extractResponseContent data)). mentionsConfidence l) \<longrightarrow>
        extractGuess (candidateLines (extractResponseContent data)) = []
        \<and> normalizeResponse data = Inl (OllamaError ''EMPTY_GUESS'' ''Ollama returned empty guess''))
   \<and> (extractResponseContent data = ''flower'' @ [CHR 0x0A] @ ''high'' \<longrightarrow>
        normalizeResponse data = Inl (OllamaError ''EMPTY_GUESS'' ''Ollama returned empty guess''))
   \<and> ''flower'' \<in> set WORD_LIST
   \<and> hasKeyword ''low'' ''flower''"
proof (intro conjI impI)
  assume a: "extractResponseContent data \<noteq> []
      \<and> (\<forall>l\<in>set (candidateLines (extractResponseContent data)). mentionsConfidence l)"
  then show g: "extractGuess (candidateLines (extractResponseContent data)) = []"
    by (simp add: extractGuess_all_confidence)
  from a g show "normalizeResponse data = Inl (OllamaError ''EMPTY_GUESS'' ''Ollama returned empty guess'')"
    by (simp add: normalizeResponse_def normalize_Inl)
next
  have "extractGuess (candidateLines (''flower'' @ [CHR 0x0A] @ ''high'')) = []"
    by code_simp
  moreover assume "extractResponseContent data = ''flower'' @ [CHR 0x0A] @ ''high''"
  ultimately show "normalizeResponse data = Inl (OllamaError ''EMPTY_GUESS'' ''Ollama returned empty guess'')"
    by (simp add: normalizeResponse_def normalize_Inl)
next
  show "''flower'' \<in> set WORD_LIST"
    by (simp add: WORD_LIST_def)
  show "hasKeyword ''low'' ''flower''"
    unfolding hasKeyword_def includes_str_sublist [symmetric] by code_simp
qed

theorem confidence_words_hide_guess_witness:
  "extractResponseContent (messageReply (''flower'' @ [CHR 0x0A] @ ''high'')) \<noteq> []
   \<and> candidateLines (extractResponseContent (messageReply (''flower'' @ [CHR 0x0A] @ ''high'')))
       = [''flower'', ''high'']
   \<and> mentionsConfidence ''flower'' \<and> mentionsConfidence ''high''
   \<and> normalizeResponse (messageReply (''flower'' @ [CHR 0x0A] @ ''high''))
       = Inl (OllamaError ''EMPTY_GUESS'' ''Ollama returned empty guess'')"
proof -
  let ?d = "messageReply (''flower'' @ [CHR 0x0A] @ ''high'')"
  have 1: "extractResponseContent ?d \<noteq> []"
    by code_simp
  have 2: "candidateLines (extractResponseContent ?d) = [''flower'', ''high'']"
    by code_simp
  have 3: "mentionsConfidence ''flower''" "mentionsConfidence ''high''"
    by code_simp+
  from 2 3 have 4: "\<forall>l\<in>set (candidateLines (extractResponseContent ?d)). mentionsConfidence l"
    by simp
  from confidence_words_hide_guess [of ?d] 1 4
  have "normalizeResponse ?d = Inl (OllamaError ''EMPTY_GUESS'' ''Ollama returned empty guess'')"
    by blast
  with 1 2 3 show ?thesis
    by simp
qed

end
